theory Spec2Isabelle
  imports Main
begin

section \<open>The NEKOTREE reader: data model\<close>

text \<open>
  The program is one Python module, \<^verbatim>\<open>tree-py/src/__init__.py\<close>: a dataclass
  \<^verbatim>\<open>SubItem\<close>, and a class \<^verbatim>\<open>Tree\<close> with the static methods \<^verbatim>\<open>open\<close> and
  \<^verbatim>\<open>create\<close>.

  Python's \<^verbatim>\<open>bytes\<close> are lists of 8-bit characters, so \<^verbatim>\<open>b"NEKOTREE"\<close> is the HOL
  string \<open>''NEKOTREE''\<close>. Python's \<^verbatim>\<open>str\<close> is a sequence of Unicode code points,
  here a list of naturals. Python's \<^verbatim>\<open>int\<close> is unbounded: \<open>int\<close>.
\<close>

type_synonym bytes = string

type_synonym str = "nat list"

definition str_of :: "string \<Rightarrow> str" where
  "str_of s = map of_char s"

text \<open>
  \<^verbatim>\<open>@dataclass class SubItem: length: int\<close>. The field is called \<open>length_attr\<close>
  because \<open>length\<close> is the length of a HOL list. The generated \<^verbatim>\<open>__init__\<close> stores
  its argument and checks nothing.
\<close>

record SubItem =
  length_attr :: int

text \<open>\<^verbatim>\<open>class Tree: subitems: list\<close>\<close>

record Tree =
  subitems :: "SubItem list"

text \<open>
  What a call can raise.

  Modelled from the spec: \<open>InvalidFileIdentifier\<close> is imported from the repository's
  module \<^verbatim>\<open>exceptions\<close>, which is not among the sources; the spec describes it as an
  error kind carrying a human-readable message, and the call site passes it one string.

  The others are Python's and the stream library's own: \<open>UnicodeDecodeError\<close> from
  \<^verbatim>\<open>bytes.decode('utf-8')\<close>, \<open>ReadError\<close> from the stream's \<^verbatim>\<open>read\<close>,
  \<open>FileNotFoundError\<close> from opening a missing file, \<open>ValueError\<close> from mapping an
  empty file into memory, and \<open>TypeError\<close> from a \<^verbatim>\<open>with\<close> statement over an object
  that is no context manager (Python 3.11 and later; earlier versions raise
  \<^verbatim>\<open>AttributeError\<close> at the same place).
\<close>

datatype py_error =
    InvalidFileIdentifier str
  | UnicodeDecodeError
  | ReadError
  | FileNotFoundError
  | ValueError
  | TypeError

text \<open>
  What a call can return: both methods are annotated \<^verbatim>\<open>-> "Tree"\<close>, and a Python
  function that reaches its end returns \<^verbatim>\<open>None\<close>.
\<close>

datatype pyval = PyNone | PyTree Tree

section \<open>Python's strict UTF-8 decoder\<close>

text \<open>
  \<^verbatim>\<open>bytes.decode('utf-8')\<close> accepts exactly the well-formed byte sequences: no
  overlong forms, no surrogates, nothing above U+10FFFF. \<open>None\<close> stands for
  \<^verbatim>\<open>UnicodeDecodeError\<close>.
\<close>

definition is_cont :: "nat \<Rightarrow> bool" where
  "is_cont b = (0x80 \<le> b \<and> b \<le> 0xBF)"

fun utf8_dec :: "nat list \<Rightarrow> nat list option" where
  "utf8_dec [] = Some []"
| "utf8_dec (b0 # bs) =
    (if b0 < 0x80 then map_option ((#) b0) (utf8_dec bs)
     else if 0xC2 \<le> b0 \<and> b0 \<le> 0xDF then
       (case bs of
          b1 # r \<Rightarrow>
            if is_cont b1
            then map_option ((#) ((b0 - 0xC0) * 64 + (b1 - 0x80))) (utf8_dec r)
            else None
        | _ \<Rightarrow> None)
     else if 0xE0 \<le> b0 \<and> b0 \<le> 0xEF then
       (case bs of
          b1 # b2 # r \<Rightarrow>
            if (if b0 = 0xE0 then 0xA0 \<le> b1 \<and> b1 \<le> 0xBF
                else if b0 = 0xED then 0x80 \<le> b1 \<and> b1 \<le> 0x9F
                else is_cont b1) \<and> is_cont b2
            then map_option
                   ((#) ((b0 - 0xE0) * 4096 + (b1 - 0x80) * 64 + (b2 - 0x80)))
                   (utf8_dec r)
            else None
        | _ \<Rightarrow> None)
     else if 0xF0 \<le> b0 \<and> b0 \<le> 0xF4 then
       (case bs of
          b1 # b2 # b3 # r \<Rightarrow>
            if (if b0 = 0xF0 then 0x90 \<le> b1 \<and> b1 \<le> 0xBF
                else if b0 = 0xF4 then 0x80 \<le> b1 \<and> b1 \<le> 0x8F
                else is_cont b1) \<and> is_cont b2 \<and> is_cont b3
            then map_option
                   ((#) ((b0 - 0xF0) * 262144 + (b1 - 0x80) * 4096
                         + (b2 - 0x80) * 64 + (b3 - 0x80)))
                   (utf8_dec r)
            else None
        | _ \<Rightarrow> None)
     else None)"

definition decode_utf8 :: "bytes \<Rightarrow> str option" where
  "decode_utf8 bs = utf8_dec (map of_char bs)"

section \<open>The file system and the bit stream\<close>

text \<open>
  The state a call runs in: the files on disk, by path, and the paths of the streams
  the program holds open.
\<close>

record world =
  files :: "string \<rightharpoonup> bytes"
  opened :: "string list"

text \<open>
  \<^verbatim>\<open>bitstring.ConstBitStream\<close> is a third-party class: a read-only bit string with a
  read position, counted in bits. \<^verbatim>\<open>ConstBitStream(filename=p)\<close> opens the file at
  \<open>p\<close> and maps it into memory, with the position at 0. A missing file raises
  \<^verbatim>\<open>FileNotFoundError\<close>, and an empty file cannot be mapped: \<^verbatim>\<open>ValueError\<close>.
\<close>

record ConstBitStream =
  data :: bytes
  pos :: nat

definition ConstBitStream_open :: "string \<Rightarrow> world \<Rightarrow> py_error + ConstBitStream" where
  "ConstBitStream_open filename w =
     (case files w filename of
        None \<Rightarrow> Inl FileNotFoundError
      | Some content \<Rightarrow>
          if content = [] then Inl ValueError
          else Inr \<lparr>data = content, pos = 0\<rparr>)"

text \<open>
  \<^verbatim>\<open>stream.read(n).bytes\<close>: the next \<open>n\<close> bits as bytes, the position advanced by
  \<open>n\<close>. The library raises \<^verbatim>\<open>ReadError\<close> when fewer than \<open>n\<close> bits remain, and
  leaves the position where it was. The program's one call asks for 64 bits at
  position 0, so the slice is taken in whole bytes.
\<close>

definition read :: "ConstBitStream \<Rightarrow> nat \<Rightarrow> py_error + (bytes \<times> ConstBitStream)" where
  "read s n =
     (if n > 8 * length (data s) - pos s then Inl ReadError
      else Inr (take (n div 8) (drop (pos s div 8) (data s)), s\<lparr>pos := pos s + n\<rparr>))"

text \<open>
  \<^verbatim>\<open>with ConstBitStream(filename=p) as stream: body\<close>. Python evaluates the
  constructor call, whose exception propagates, and then looks up \<^verbatim>\<open>__enter__\<close> and
  \<^verbatim>\<open>__exit__\<close> on the class of the result before it binds \<^verbatim>\<open>stream\<close> or runs a
  statement of the body. \<^verbatim>\<open>ConstBitStream\<close> defines neither method, so the
  statement raises \<^verbatim>\<open>TypeError\<close> there: the body is not run, whatever it is, and
  the program never holds a stream. The discarded stream object is left to the
  interpreter's memory management, which is not part of the state.
\<close>

definition with_stream ::
  "string \<Rightarrow> (ConstBitStream \<Rightarrow> (py_error + 'a) \<times> ConstBitStream) \<Rightarrow> world
     \<Rightarrow> (py_error + 'a) \<times> world" where
  "with_stream filename body w =
     (case ConstBitStream_open filename w of
        Inl e \<Rightarrow> (Inl e, w)
      | Inr stream \<Rightarrow> (Inl TypeError, w))"

section \<open>Tree.open and Tree.create\<close>

text \<open>
  The body of the \<^verbatim>\<open>with\<close> block of \<^verbatim>\<open>Tree.open\<close>:
  \<^verbatim>\<open>
  identifier = stream.read(8 * 8)
  if identifier.bytes != b"NEKOTREE":
      raise InvalidFileIdentifier(
          f"Invalid file identifier: {identifier.bytes.decode('utf-8')}")
  \<close>
  The f-string is evaluated before the exception is built, so a failure of
  \<^verbatim>\<open>decode\<close> is what would propagate.
\<close>

definition Tree_open_body :: "ConstBitStream \<Rightarrow> (py_error + unit) \<times> ConstBitStream" where
  "Tree_open_body stream =
     (case read stream (8 * 8) of
        Inl e \<Rightarrow> (Inl e, stream)
      | Inr (identifier, stream') \<Rightarrow>
          if identifier \<noteq> ''NEKOTREE'' then
            (case decode_utf8 identifier of
               None \<Rightarrow> (Inl UnicodeDecodeError, stream')
             | Some txt \<Rightarrow>
                 (Inl (InvalidFileIdentifier (str_of ''Invalid file identifier: '' @ txt)),
                  stream'))
          else (Inr (), stream'))"

text \<open>
  \<^verbatim>\<open>Tree.open(file_path)\<close>: the \<^verbatim>\<open>with\<close> statement is the whole function. There is
  no \<^verbatim>\<open>return\<close>, so a call that got past it would reach the end of the function and
  return \<^verbatim>\<open>None\<close>.
\<close>

definition Tree_open :: "string \<Rightarrow> world \<Rightarrow> (py_error + pyval) \<times> world" where
  "Tree_open file_path w =
     (case with_stream file_path Tree_open_body w of
        (Inl e, w') \<Rightarrow> (Inl e, w')
      | (Inr u, w') \<Rightarrow> (Inr PyNone, w'))"

text \<open>\<^verbatim>\<open>Tree.create(file_path, subitems)\<close>: the body is \<^verbatim>\<open>pass\<close>.\<close>

definition Tree_create :: "string \<Rightarrow> SubItem list \<Rightarrow> world \<Rightarrow> (py_error + pyval) \<times> world" where
  "Tree_create file_path sub_items w = (Inr PyNone, w)"

text \<open>\<^verbatim>\<open>SubItem(length=n)\<close>: the dataclass's generated constructor.\<close>

definition SubItem_init :: "int \<Rightarrow> py_error + SubItem" where
  "SubItem_init n = Inr \<lparr>length_attr = n\<rparr>"

section \<open>Facts about the embedding\<close>

text \<open>
  The outcome of \<open>Tree_open\<close>, by cases on the file: a missing file and an empty file
  fail in the constructor, every other file at the \<^verbatim>\<open>with\<close> statement.
\<close>

lemma Tree_open_outcome:
  assumes "files w file_path = Some content"
  shows "fst (Tree_open file_path w) = (if content = [] then Inl ValueError else Inl TypeError)"
  using assms by (simp add: Tree_open_def with_stream_def ConstBitStream_open_def)

lemma Tree_open_missing_file:
  "files w file_path = None \<Longrightarrow> fst (Tree_open file_path w) = Inl FileNotFoundError"
  by (simp add: Tree_open_def with_stream_def ConstBitStream_open_def)

lemma Tree_open_raises:
  "\<exists>e. fst (Tree_open file_path w) = Inl e
        \<and> (e = FileNotFoundError \<or> e = ValueError \<or> e = TypeError)"
  by (cases "files w file_path")
     (simp_all add: Tree_open_def with_stream_def ConstBitStream_open_def)

text \<open>
  The block under the \<^verbatim>\<open>with\<close> statement, taken by itself on a fresh stream: the read
  fails exactly on fewer than 8 bytes, and otherwise yields the first 8 bytes and
  leaves the position at bit 64.
\<close>

lemma read_identifier:
  "read \<lparr>data = content, pos = 0\<rparr> 64 =
     (if length content < 8 then Inl ReadError
      else Inr (take 8 content, \<lparr>data = content, pos = 64\<rparr>))"
  by (simp add: read_def)

lemma Tree_open_body_outcome:
  "fst (Tree_open_body \<lparr>data = content, pos = 0\<rparr>) =
     (if length content < 8 then Inl ReadError
      else if take 8 content \<noteq> ''NEKOTREE'' then
        (case decode_utf8 (take 8 content) of
           None \<Rightarrow> Inl UnicodeDecodeError
         | Some txt \<Rightarrow>
             Inl (InvalidFileIdentifier (str_of ''Invalid file identifier: '' @ txt)))
      else Inr ())"
  by (simp add: Tree_open_body_def read_identifier split: option.splits)

section \<open>The claims\<close>

text \<open>
  C1. For every file whose first 8 bytes are not \<^verbatim>\<open>NEKOTREE\<close>, \<^verbatim>\<open>Tree.open\<close> reads
  those 8 bytes, compares them with the literal and raises \<^verbatim>\<open>InvalidFileIdentifier\<close>.

  The code does not: on the file \<^verbatim>\<open>XXXXXXXX\<close> the \<^verbatim>\<open>with\<close> statement raises
  \<^verbatim>\<open>TypeError\<close> before a byte is read or compared.
\<close>

theorem Tree_open_mismatch_TypeError:
  "fst (Tree_open ''bad.tree'' \<lparr>files = [''bad.tree'' \<mapsto> ''XXXXXXXX''], opened = []\<rparr>)
     = Inl TypeError"
  by (simp add: Tree_open_outcome)

text \<open>
  C2. For every file whose first 8 bytes are exactly \<^verbatim>\<open>NEKOTREE\<close>, whatever follows
  them (also nothing), \<^verbatim>\<open>Tree.open\<close> does not raise \<^verbatim>\<open>InvalidFileIdentifier\<close>. What it
  raises is the \<^verbatim>\<open>TypeError\<close> of the \<^verbatim>\<open>with\<close> statement.
\<close>

theorem Tree_open_valid_identifier:
  assumes "files w file_path = Some (''NEKOTREE'' @ rest)"
  shows "(\<forall>msg. fst (Tree_open file_path w) \<noteq> Inl (InvalidFileIdentifier msg))
         \<and> fst (Tree_open file_path w) = Inl TypeError"
  using assms by (simp add: Tree_open_outcome)

theorem Tree_open_valid_identifier_witness:
  "files \<lparr>files = [''a.tree'' \<mapsto> ''NEKOTREE'' @ ''trailing bytes''], opened = []\<rparr> ''a.tree''
     = Some (''NEKOTREE'' @ ''trailing bytes'')
   \<and> (\<forall>msg. fst (Tree_open ''a.tree''
          \<lparr>files = [''a.tree'' \<mapsto> ''NEKOTREE'' @ ''trailing bytes''], opened = []\<rparr>)
        \<noteq> Inl (InvalidFileIdentifier msg))"
proof -
  have f: "files \<lparr>files = [''a.tree'' \<mapsto> ''NEKOTREE'' @ ''trailing bytes''], opened = []\<rparr>
             ''a.tree'' = Some (''NEKOTREE'' @ ''trailing bytes'')"
    by simp
  from Tree_open_valid_identifier [OF f] f show ?thesis
    by blast
qed

text \<open>
  C3. \<^verbatim>\<open>Tree.open\<close>, given a file that starts with the magic identifier, returns a
  \<^verbatim>\<open>Tree\<close> value.

  The code does not: on the file that holds the 8 bytes of the identifier and nothing
  else, the call raises \<^verbatim>\<open>TypeError\<close> and returns nothing.
\<close>

theorem Tree_open_valid_TypeError:
  "fst (Tree_open ''ok.tree'' \<lparr>files = [''ok.tree'' \<mapsto> ''NEKOTREE''], opened = []\<rparr>)
     = Inl TypeError"
  by (simp add: Tree_open_outcome)

text \<open>
  C5. When the first 8 bytes do not match, \<^verbatim>\<open>Tree.open\<close> raises
  \<^verbatim>\<open>InvalidFileIdentifier\<close> with a message that shows them; for the file \<^verbatim>\<open>NEKOTRFF\<close>
  the message references \<^verbatim>\<open>NEKOTRFF\<close>.

  The code does not: on that file the call raises \<^verbatim>\<open>TypeError\<close>, and no message
  is ever built.
\<close>

theorem Tree_open_NEKOTRFF_TypeError:
  "fst (Tree_open ''x.tree'' \<lparr>files = [''x.tree'' \<mapsto> ''NEKOTRFF''], opened = []\<rparr>)
     = Inl TypeError"
  by (simp add: Tree_open_outcome)

text \<open>
  C6. For every path and every list of \<^verbatim>\<open>SubItem\<close> values, \<^verbatim>\<open>Tree.create\<close> has no
  effect: the files are as before (nothing is written or serialized), no stream is
  left open, and the call returns \<^verbatim>\<open>None\<close>.
\<close>

theorem Tree_create_no_effect:
  "files (snd (Tree_create file_path sub_items w)) = files w
   \<and> opened (snd (Tree_create file_path sub_items w)) = opened w
   \<and> fst (Tree_create file_path sub_items w) = Inr PyNone"
  by (simp add: Tree_create_def)

text \<open>
  C7. Opening a file shorter than 8 bytes raises \<^verbatim>\<open>InvalidFileIdentifier\<close> or a
  short-read error of the stream's read.

  The code does not: on the 7-byte file \<^verbatim>\<open>NEKOTRE\<close> the call raises \<^verbatim>\<open>TypeError\<close> at
  the \<^verbatim>\<open>with\<close> statement, before any read.
\<close>

theorem Tree_open_short_TypeError:
  "fst (Tree_open ''s.tree'' \<lparr>files = [''s.tree'' \<mapsto> ''NEKOTRE''], opened = []\<rparr>)
     = Inl TypeError"
  by (simp add: Tree_open_outcome)

text \<open>
  C8. For every integer \<open>n\<close>, \<^verbatim>\<open>SubItem(length=n)\<close> succeeds and the record's
  \<^verbatim>\<open>length\<close> is \<open>n\<close>: no range is checked.
\<close>

theorem SubItem_init_length:
  "\<exists>s. SubItem_init n = Inr s \<and> length_attr s = n"
  by (simp add: SubItem_init_def)

text \<open>
  C9. The outcome of \<^verbatim>\<open>Tree.open\<close> depends only on the first 8 bytes of the file: two
  files that agree on them, at any paths and in any two states, give the same return
  value or the same exception. The call reads no byte of the file itself: its outcome
  is decided by whether the file is empty.
\<close>

theorem Tree_open_first_8_bytes:
  assumes "files w file_path = Some a" and "files w' file_path' = Some b"
    and "take 8 a = take 8 b"
  shows "fst (Tree_open file_path w) = fst (Tree_open file_path' w')"
proof -
  have "take 8 a = [] \<longleftrightarrow> take 8 b = []"
    using assms(3) by simp
  then have "a = [] \<longleftrightarrow> b = []"
    by simp
  then show ?thesis
    using assms(1,2) by (simp add: Tree_open_outcome)
qed

theorem Tree_open_first_8_bytes_witness:
  "take 8 ''NEKOTRFF and more'' = take 8 ''NEKOTRFF, other bytes''
   \<and> fst (Tree_open ''a'' \<lparr>files = [''a'' \<mapsto> ''NEKOTRFF and more''], opened = []\<rparr>)
       = fst (Tree_open ''b''
               \<lparr>files = [''b'' \<mapsto> ''NEKOTRFF, other bytes''], opened = [''c'']\<rparr>)"
proof -
  have fa: "files \<lparr>files = [''a'' \<mapsto> ''NEKOTRFF and more''], opened = []\<rparr> ''a''
              = Some ''NEKOTRFF and more''"
    by simp
  have fb: "files \<lparr>files = [''b'' \<mapsto> ''NEKOTRFF, other bytes''], opened = [''c'']\<rparr> ''b''
              = Some ''NEKOTRFF, other bytes''"
    by simp
  have t: "take 8 ''NEKOTRFF and more'' = take 8 ''NEKOTRFF, other bytes''"
    by simp
  from Tree_open_first_8_bytes [OF fa fb t] t show ?thesis
    by blast
qed

text \<open>
  C10. Neither \<^verbatim>\<open>Tree.open\<close> nor \<^verbatim>\<open>Tree.create\<close> ever hands a \<^verbatim>\<open>Tree\<close> to its caller,
  whatever the arguments and the state: no result of either is a \<^verbatim>\<open>Tree\<close>, so none
  carries a list of subitems.
\<close>

theorem no_Tree_returned:
  "fst (Tree_open file_path w) \<noteq> Inr (PyTree t)
   \<and> fst (Tree_create file_path' sub_items w') \<noteq> Inr (PyTree t')"
  by (simp add: Tree_open_def Tree_create_def split: prod.splits sum.splits)

end
